theory Spec2Isabelle
  imports Complex_Main
begin

section \<open>Page layout of pdf2docx: \<^verbatim>\<open>pdf2docx/layout/Layout.py\<close>\<close>

text \<open>
  The development embeds the class \<^verbatim>\<open>Layout\<close>: its constructor, the margin
  computation, the table recognition loop, the vertical spacing pass and the \<^verbatim>\<open>parse\<close>
  pipeline. Coordinates are Python floats; they are modelled as \<^typ>\<open>real\<close>, so that
  \<^verbatim>\<open>min\<close>, \<^verbatim>\<open>max\<close>, subtraction and the factor \<^verbatim>\<open>0.5\<close> are the exact
  operations (rounding and NaN are outside the model).
\<close>

subsection \<open>Errors\<close>

datatype error =
    NameError string   \<comment> \<open>a free name that nothing binds\<close>
  | TypeError          \<comment> \<open>subscripting \<^verbatim>\<open>None\<close>\<close>
  | ValueError         \<comment> \<open>\<^verbatim>\<open>min\<close> or \<^verbatim>\<open>max\<close> of an empty sequence\<close>

definition bind_err :: "error + 'a \<Rightarrow> ('a \<Rightarrow> error + 'b) \<Rightarrow> error + 'b" where
  "bind_err r f = (case r of Inl e \<Rightarrow> Inl e | Inr v \<Rightarrow> f v)"

subsection \<open>Data\<close>

text \<open>The bounding box of a block or a rectangle (\<^verbatim>\<open>x.bbox\<close>, a \<^verbatim>\<open>fitz.Rect\<close>).\<close>

record bbox =
  x0 :: real
  y0 :: real
  x1 :: real
  y1 :: real

text \<open>
  The classes \<^verbatim>\<open>Blocks\<close>, \<^verbatim>\<open>Block\<close> and \<^verbatim>\<open>Cell\<close> live in files the class
  \<^verbatim>\<open>Layout\<close> only imports. The model keeps what \<^verbatim>\<open>Layout\<close> reads of them: a block
  has a bounding box and answers \<^verbatim>\<open>is_table_block()\<close>; a table block has rows of cells;
  a cell is empty (falsy, \<open>None\<close> here) or has \<^verbatim>\<open>bbox_raw\<close> \<open>(x0, y0, x1, y1)\<close>,
  \<^verbatim>\<open>border_width\<close> \<open>(top, right, bottom, left)\<close> and its own block collection. The
  attribute \<open>before_space\<close> stands for the spacing a spacing pass stores in a block.
  A block collection (\<^verbatim>\<open>Blocks\<close>) is the list of its blocks, falsy when empty.
\<close>

datatype block =
    TextBlock bbox real
  | TableBlock bbox real "cell option list list"
and cell =
    Cell "real \<times> real \<times> real \<times> real" "real \<times> real \<times> real \<times> real" "block list"

fun block_bbox :: "block \<Rightarrow> bbox" where
  "block_bbox (TextBlock b s) = b"
| "block_bbox (TableBlock b s cs) = b"

fun before_space :: "block \<Rightarrow> real" where
  "before_space (TextBlock b s) = s"
| "before_space (TableBlock b s cs) = s"

fun is_table_block :: "block \<Rightarrow> bool" where
  "is_table_block (TextBlock b s) = False"
| "is_table_block (TableBlock b s cs) = True"

fun cells :: "block \<Rightarrow> cell option list list" where
  "cells (TextBlock b s) = []"
| "cells (TableBlock b s cs) = cs"

fun bbox_raw :: "cell \<Rightarrow> real \<times> real \<times> real \<times> real" where
  "bbox_raw (Cell bb bw bs) = bb"

fun border_width :: "cell \<Rightarrow> real \<times> real \<times> real \<times> real" where
  "border_width (Cell bb bw bs) = bw"

fun cell_blocks :: "cell \<Rightarrow> block list" where
  "cell_blocks (Cell bb bw bs) = bs"

text \<open>A rectangle shape: a bounding box and the tag \<^verbatim>\<open>rect['type']\<close>; \<open>-1\<close> is unclassified.\<close>

record rect =
  rect_bbox :: bbox
  rect_type :: int

text \<open>
  The two constants of \<^verbatim>\<open>utils\<close> that \<^verbatim>\<open>Layout\<close> reads. Their values are set outside
  \<^verbatim>\<open>Layout.py\<close>, so they are parameters: \<open>ITP\<close> is the normal margin (the source's
  comment: 1 inch = 72 pt), \<open>DM\<close> the tolerance.
\<close>

record utils =
  ITP :: real
  DM :: real

text \<open>
  The page. \<open>p_margin\<close> is the attribute \<^verbatim>\<open>_margin\<close>: \<open>None\<close> or the tuple
  \<open>(left, right, top, bottom)\<close>. \<open>rects\<close> is the collection \<^verbatim>\<open>Rectangles\<close>, the list
  of its rectangle objects.
\<close>

record layout =
  width :: real
  height :: real
  blocks :: "block list"
  p_margin :: "(real \<times> real \<times> real \<times> real) option"
  rects :: "rect list"

text \<open>
  The raw dict given to the constructor, with the keys of the module's docstring. A key that
  is absent is \<open>None\<close>.
\<close>

record raw_dict =
  raw_width :: "real option"
  raw_height :: "real option"
  raw_blocks :: "block list option"
  raw_margin :: "(real \<times> real \<times> real \<times> real) option"
  raw_rects :: "rect list option"

subsection \<open>Construction and the margin property\<close>

text \<open>\<^verbatim>\<open>raw.get(key, default)\<close>.\<close>

definition dict_get :: "'a option \<Rightarrow> 'a \<Rightarrow> 'a" where
  "dict_get v d = (case v of None \<Rightarrow> d | Some a \<Rightarrow> a)"

text \<open>\<^verbatim>\<open>Layout.__init__\<close>, lines 41-48.\<close>

definition Layout_init :: "raw_dict \<Rightarrow> layout" where
  "Layout_init raw =
     \<lparr> width = dict_get (raw_width raw) 0.0,
       height = dict_get (raw_height raw) 0.0,
       blocks = dict_get (raw_blocks raw) [],
       p_margin = None,
       rects = [] \<rparr>"

text \<open>The property \<^verbatim>\<open>margin\<close>, lines 118-120.\<close>

definition margin :: "layout \<Rightarrow> (real \<times> real \<times> real \<times> real) option" where
  "margin self = p_margin self"

subsection \<open>Margin computation\<close>

text \<open>
  Python's \<^verbatim>\<open>min\<close> and \<^verbatim>\<open>max\<close> of an iterable: the first item, replaced by each later
  item that is strictly smaller (larger); \<^verbatim>\<open>ValueError\<close> on an empty iterable.
\<close>

fun min_iter :: "real \<Rightarrow> real list \<Rightarrow> real" where
  "min_iter cur [] = cur"
| "min_iter cur (v # vs) = min_iter (if v < cur then v else cur) vs"

fun max_iter :: "real \<Rightarrow> real list \<Rightarrow> real" where
  "max_iter cur [] = cur"
| "max_iter cur (v # vs) = max_iter (if v > cur then v else cur) vs"

definition py_min :: "real list \<Rightarrow> error + real" where
  "py_min vs = (case vs of [] \<Rightarrow> Inl ValueError | v # rest \<Rightarrow> Inr (min_iter v rest))"

definition py_max :: "real list \<Rightarrow> error + real" where
  "py_max vs = (case vs of [] \<Rightarrow> Inl ValueError | v # rest \<Rightarrow> Inr (max_iter v rest))"

text \<open>\<^verbatim>\<open>min(a, b)\<close> and \<^verbatim>\<open>max(a, b)\<close> of two arguments: the second wins only when strictly
  smaller (larger).\<close>

definition min2 :: "real \<Rightarrow> real \<Rightarrow> real" where
  "min2 a b = (if b < a then b else a)"

definition max2 :: "real \<Rightarrow> real \<Rightarrow> real" where
  "max2 a b = (if b > a then b else a)"

text \<open>\<^verbatim>\<open>Layout.page_margin\<close>, lines 205-244. It returns the page with \<^verbatim>\<open>_margin\<close> set.\<close>

definition page_margin :: "utils \<Rightarrow> layout \<Rightarrow> error + layout" where
  "page_margin u self =
     (if blocks self = [] then
        Inr (self\<lparr>p_margin := Some (ITP u, ITP u, ITP u, ITP u)\<rparr>)
      else
        (let list_bbox = map block_bbox (blocks self) in
         bind_err (py_min (map x0 list_bbox)) (\<lambda>left.
         bind_err (py_max (map x1 list_bbox)) (\<lambda>x_max.
           (let right = width self - x_max - DM u * 2.0;
                right = min2 right left;
                right = max2 right 0.0
            in
         bind_err (py_min (map y0 list_bbox)) (\<lambda>top.
         bind_err (py_max (map y1 list_bbox)) (\<lambda>y_max.
           (let bottom = height self - y_max;
                bottom = max2 bottom 0.0;
                bottom = bottom * 0.5
            in
              Inr (self\<lparr>p_margin := Some
                     (min2 (ITP u) left,
                      min2 (ITP u) right,
                      min2 (ITP u) top,
                      min2 (ITP u) bottom)\<rparr>)))))))))"

text \<open>
  The reference algorithm of the margin, in the words of the specification: the least
  \<open>x0\<close> and \<open>y0\<close> and the greatest \<open>x1\<close> and \<open>y1\<close> over the boxes, the right margin
  \<open>max(0, min(page_width - max x1 - 2 * tolerance, left))\<close>, the bottom margin
  \<open>0.5 * max(0, page_height - max y1)\<close>, each side capped at the normal margin.
\<close>

definition reference_margin ::
  "real \<Rightarrow> real \<Rightarrow> real \<Rightarrow> real \<Rightarrow> bbox list \<Rightarrow> real \<times> real \<times> real \<times> real" where
  "reference_margin normal tolerance page_width page_height boxes =
     (let left = Min (set (map x0 boxes));
          right = max 0 (min (page_width - Max (set (map x1 boxes)) - 2 * tolerance) left);
          top = Min (set (map y0 boxes));
          bottom = 0.5 * max 0 (page_height - Max (set (map y1 boxes)))
      in (min normal left, min normal right, min normal top, min normal bottom))"

subsection \<open>Vertical spacing\<close>

text \<open>
  \<^verbatim>\<open>Blocks.parse_vertical_spacing(Y0, Y1)\<close> is defined outside \<^verbatim>\<open>Layout.py\<close>. It is
  a parameter of the model: a function that, given the top and the bottom of a scope and a
  block collection, returns the collection with its spacing attributes set.
\<close>

type_synonym spacing = "real \<Rightarrow> real \<Rightarrow> block list \<Rightarrow> block list"

text \<open>The body of the innermost loop, lines 199-202, for a non-empty cell.\<close>

definition cell_spacing :: "spacing \<Rightarrow> cell \<Rightarrow> cell" where
  "cell_spacing pvs c =
     (case bbox_raw c of (cx0, cy0, cx1, cy1) \<Rightarrow>
        (case border_width c of (w_top, w_right, w_bottom, w_left) \<Rightarrow>
           Cell (bbox_raw c) (border_width c)
             (pvs (cy0 + w_top / 2.0) (cy1 - w_bottom / 2.0) (cell_blocks c))))"

text \<open>The loops over the rows and the cells of one table, lines 197-202; an empty cell
  is skipped.\<close>

fun table_spacing :: "spacing \<Rightarrow> block \<Rightarrow> block" where
  "table_spacing pvs (TableBlock b s cs) =
     TableBlock b s (map (map (map_option (cell_spacing pvs))) cs)"
| "table_spacing pvs (TextBlock b s) = TextBlock b s"

text \<open>
  \<^verbatim>\<open>Layout.parse_vertical_spacing\<close>, lines 186-202. \<^verbatim>\<open>self.margin[-2:]\<close> subscripts the
  margin, which raises \<^verbatim>\<open>TypeError\<close> when it is \<^verbatim>\<open>None\<close>. The tables are the table
  blocks of the page's own collection, after its page-level pass.
\<close>

definition parse_vertical_spacing :: "spacing \<Rightarrow> layout \<Rightarrow> error + layout" where
  "parse_vertical_spacing pvs self =
     (case margin self of
        None \<Rightarrow> Inl TypeError
      | Some (m_left, m_right, m_top, m_bottom) \<Rightarrow>
          (let bs = pvs m_top (height self - m_bottom) (blocks self) in
           Inr (self\<lparr>blocks :=
                  map (\<lambda>b. if is_table_block b then table_spacing pvs b else b) bs\<rparr>)))"

text \<open>
  Modelled from the spec: \<^verbatim>\<open>Blocks.parse_vertical_spacing\<close> is not part of
  \<^verbatim>\<open>Layout.py\<close>. The specification gives it for one scope: the first block gets the
  space from the top of the scope to its \<open>y0\<close>, each later block the space from the
  \<open>y1\<close> of its predecessor to its \<open>y0\<close>, a negative gap counting as zero. Line spacing
  inside a text block is not carried by the model.
\<close>

fun set_before_space :: "real \<Rightarrow> block \<Rightarrow> block" where
  "set_before_space v (TextBlock b s) = TextBlock b v"
| "set_before_space v (TableBlock b s cs) = TableBlock b v cs"

fun gaps_from :: "real \<Rightarrow> block list \<Rightarrow> block list" where
  "gaps_from ref_pos [] = []"
| "gaps_from ref_pos (b # bs) =
     set_before_space (max 0 (y0 (block_bbox b) - ref_pos)) b # gaps_from (y1 (block_bbox b)) bs"

definition gap_spacing :: spacing where
  "gap_spacing scope_top scope_bottom bs = gaps_from scope_top bs"

subsection \<open>Free names\<close>

text \<open>
  The names \<^verbatim>\<open>Layout.py\<close> binds at module level: its four imports and the class. A name
  that is neither local to the running method nor bound at module level (nor a builtin)
  raises \<^verbatim>\<open>NameError\<close> when it is evaluated.
\<close>

definition module_globals :: "string list" where
  "module_globals = [''json'', ''Blocks'', ''utils'', ''Rectangles'', ''Layout'']"

definition load_name :: "string list \<Rightarrow> string \<Rightarrow> error + unit" where
  "load_name locals n =
     (if n \<in> set locals \<or> n \<in> set module_globals then Inr () else Inl (NameError n))"

subsection \<open>The pipeline\<close>

text \<open>
  \<^verbatim>\<open>Layout.parse\<close>, lines 123-152. \<^verbatim>\<open>Blocks.preprocessing\<close> and the four functions called
  at lines 143-152 are defined outside \<^verbatim>\<open>Layout.py\<close>; they are parameters, functions from
  the page to the page. Each of the four calls passes the name \<^verbatim>\<open>layout\<close>, which is
  evaluated before the call; the locals of the method are \<^verbatim>\<open>self\<close> and \<^verbatim>\<open>kwargs\<close>.
\<close>

definition parse ::
  "utils \<Rightarrow> (block list \<Rightarrow> block list) \<Rightarrow> (layout \<Rightarrow> layout) \<Rightarrow> (layout \<Rightarrow> layout) \<Rightarrow>
   (layout \<Rightarrow> layout) \<Rightarrow> (layout \<Rightarrow> layout) \<Rightarrow> layout \<Rightarrow> error + layout" where
  "parse u preprocessing parse_explicit_table parse_implicit_table parse_text_format
     parse_vertical_spacing_fn self =
     (let self = self\<lparr>blocks := preprocessing (blocks self)\<rparr> in
      bind_err (page_margin u self) (\<lambda>self.
      bind_err (load_name [''self'', ''kwargs''] ''layout'') (\<lambda>_.
      (let self = parse_explicit_table self in
      bind_err (load_name [''self'', ''kwargs''] ''layout'') (\<lambda>_.
      (let self = parse_implicit_table self in
      bind_err (load_name [''self'', ''kwargs''] ''layout'') (\<lambda>_.
      (let self = parse_text_format self in
      bind_err (load_name [''self'', ''kwargs''] ''layout'') (\<lambda>_.
      Inr (parse_vertical_spacing_fn self))))))))))"

subsection \<open>Tables from rectangles\<close>

text \<open>
  The rectangles of a group are objects of the page's collection; a helper or the loop that
  sets \<^verbatim>\<open>rect['type']\<close> changes the collection. The model keeps the collection as a list
  and a group as the list of the positions of its rectangles. \<^verbatim>\<open>Rectangles.group\<close> is a
  method of the collection, defined outside \<^verbatim>\<open>Layout.py\<close>, and a parameter.

  The loop calls \<^verbatim>\<open>_set_table_borders\<close>, \<^verbatim>\<open>_parse_table_structure_from_rects\<close> and
  \<^verbatim>\<open>set_explicit_table_block\<close> by their bare names. Each name is evaluated where the
  source evaluates it, against the locals of the method and the names of the module; only
  when it is bound does the call go to the helper, which is a parameter:
  \<^verbatim>\<open>_set_table_borders\<close> returns its verdict and the collection as it leaves it,
  \<^verbatim>\<open>_parse_table_structure_from_rects\<close> a table or \<open>None\<close> and the collection,
  \<^verbatim>\<open>set_explicit_table_block\<close> the table it marked.
\<close>

type_synonym set_borders = "rect list \<Rightarrow> nat list \<Rightarrow> bool \<times> rect list"
type_synonym parse_structure = "rect list \<Rightarrow> nat list \<Rightarrow> block option \<times> rect list"

text \<open>The local names of \<^verbatim>\<open>parse_table_structure_from_rects\<close>.\<close>

definition table_locals :: "string list" where
  "table_locals = [''self'', ''kwargs'', ''groups'', ''tables'', ''group'', ''table'', ''rect'']"

text \<open>Lines 175-176: \<^verbatim>\<open>for rect in group: rect['type'] = -1\<close>.\<close>

fun reset_types :: "nat list \<Rightarrow> rect list \<Rightarrow> rect list" where
  "reset_types [] s = s"
| "reset_types (i # is) s = reset_types is (s[i := (s ! i)\<lparr>rect_type := -1\<rparr>])"

text \<open>
  The body of the loop over the groups, lines 164-176, on the tables found so far and the
  collection. It returns the error it raises, if any, with the tables and the collection
  as they are at that point.
\<close>

definition check_group ::
  "set_borders \<Rightarrow> parse_structure \<Rightarrow> (block \<Rightarrow> block) \<Rightarrow> nat list \<Rightarrow>
   block list \<times> rect list \<Rightarrow> error option \<times> block list \<times> rect list" where
  "check_group set_table_borders parse_structure set_explicit_table_block grp st =
     (case st of (tables, s) \<Rightarrow>
        (case load_name table_locals ''_set_table_borders'' of
           Inl e \<Rightarrow> (Some e, tables, s)
         | Inr _ \<Rightarrow>
             (case set_table_borders s grp of (ok, s1) \<Rightarrow>
                if \<not> ok then (None, tables, s1)
                else
                  (case load_name table_locals ''_parse_table_structure_from_rects'' of
                     Inl e \<Rightarrow> (Some e, tables, s1)
                   | Inr _ \<Rightarrow>
                       (case parse_structure s1 grp of
                          (Some table, s2) \<Rightarrow>
                            (case load_name table_locals ''set_explicit_table_block'' of
                               Inl e \<Rightarrow> (Some e, tables, s2)
                             | Inr _ \<Rightarrow> (None, tables @ [set_explicit_table_block table], s2))
                        | (None, s2) \<Rightarrow> (None, tables, reset_types grp s2))))))"

text \<open>The loop of lines 163-176: it stops at the first group that raises.\<close>

fun check_groups ::
  "set_borders \<Rightarrow> parse_structure \<Rightarrow> (block \<Rightarrow> block) \<Rightarrow> nat list list \<Rightarrow>
   block list \<times> rect list \<Rightarrow> error option \<times> block list \<times> rect list" where
  "check_groups stb pts setb [] st = (None, st)"
| "check_groups stb pts setb (grp # groups) st =
     (case check_group stb pts setb grp st of
        (Some e, st') \<Rightarrow> (Some e, st')
      | (None, st') \<Rightarrow> check_groups stb pts setb groups st')"

text \<open>
  \<^verbatim>\<open>Layout.parse_table_structure_from_rects\<close>, lines 156-183 (the decorator of line 155
  only plots). It returns what the method returns or raises, and the page as the method
  leaves it. Line 180 evaluates the name \<^verbatim>\<open>layout\<close>.
\<close>

definition parse_table_structure_from_rects ::
  "(rect list \<Rightarrow> nat list list) \<Rightarrow> set_borders \<Rightarrow> parse_structure \<Rightarrow> (block \<Rightarrow> block) \<Rightarrow>
   layout \<Rightarrow> (error + bool) \<times> layout" where
  "parse_table_structure_from_rects rects_group stb pts setb self =
     (let groups = rects_group (rects self) in
      (case check_groups stb pts setb groups ([], rects self) of
         (Some e, tables, s) \<Rightarrow> (Inl e, self\<lparr>rects := s\<rparr>)
       | (None, tables, s) \<Rightarrow>
           (let self = self\<lparr>rects := s\<rparr> in
            if tables \<noteq> [] then
              (case load_name table_locals ''layout'' of
                 Inl e \<Rightarrow> (Inl e, self)
               | Inr _ \<Rightarrow> (Inr True, self\<lparr>blocks := blocks self @ tables\<rparr>))
            else (Inr False, self))))"

subsection \<open>The range of a margin\<close>

text \<open>Every side within zero and the normal margin, and the right side no larger than
  the left one.\<close>

definition margin_in_range :: "utils \<Rightarrow> real \<times> real \<times> real \<times> real \<Rightarrow> bool" where
  "margin_in_range u m =
     (case m of (left, right, m_top, bottom) \<Rightarrow>
        0 \<le> left \<and> left \<le> ITP u \<and> 0 \<le> right \<and> right \<le> ITP u \<and>
        0 \<le> m_top \<and> m_top \<le> ITP u \<and> 0 \<le> bottom \<and> bottom \<le> ITP u \<and> right \<le> left)"

subsection \<open>Concrete pages\<close>

text \<open>The normal margin of 72 points, with a tolerance of one point.\<close>

definition std_utils :: utils where
  "std_utils = \<lparr>ITP = 72, DM = 1\<rparr>"

text \<open>The page of the specification's scenario: 600 by 800, two text blocks.\<close>

definition scenario_page :: layout where
  "scenario_page =
     \<lparr> width = 600, height = 800,
       blocks = [TextBlock \<lparr>x0 = 50, y0 = 60, x1 = 550, y1 = 100\<rparr> 0,
                 TextBlock \<lparr>x0 = 50, y0 = 120, x1 = 550, y1 = 760\<rparr> 0],
       p_margin = None, rects = [] \<rparr>"

text \<open>A page whose only block starts left of the page.\<close>

definition neg_page :: layout where
  "neg_page =
     \<lparr> width = 600, height = 800,
       blocks = [TextBlock \<lparr>x0 = -10, y0 = 60, x1 = 550, y1 = 100\<rparr> 0],
       p_margin = None, rects = [] \<rparr>"

text \<open>A raw dict without blocks.\<close>

definition empty_raw :: raw_dict where
  "empty_raw = \<lparr>raw_width = Some 600, raw_height = Some 800, raw_blocks = Some [],
                raw_margin = None, raw_rects = None\<rparr>"

text \<open>A page with a text block and a table of one row: a cell with one text block, and an
  empty cell.\<close>

definition table_page :: layout where
  "table_page =
     \<lparr> width = 600, height = 800,
       blocks = [TextBlock \<lparr>x0 = 50, y0 = 60, x1 = 550, y1 = 100\<rparr> 0,
                 TableBlock \<lparr>x0 = 50, y0 = 120, x1 = 550, y1 = 760\<rparr> 0
                   [[Some (Cell (50, 120, 300, 760) (2, 2, 4, 2)
                       [TextBlock \<lparr>x0 = 60, y0 = 130, x1 = 290, y1 = 150\<rparr> 0]),
                     None]]],
       p_margin = Some (50, 48, 60, 20), rects = [] \<rparr>"

text \<open>A page with a table whose only cell holds a table whose only cell holds a text
  block. The arguments are the spacing stored in the outer and in the inner table.\<close>

definition inner_text :: block where
  "inner_text = TextBlock \<lparr>x0 = 70, y0 = 130, x1 = 530, y1 = 150\<rparr> 0"

definition inner_table :: "real \<Rightarrow> block" where
  "inner_table sp = TableBlock \<lparr>x0 = 60, y0 = 110, x1 = 540, y1 = 690\<rparr> sp
     [[Some (Cell (60, 110, 540, 690) (2, 2, 2, 2) [inner_text])]]"

definition outer_table :: "real \<Rightarrow> real \<Rightarrow> block" where
  "outer_table sp sp_inner = TableBlock \<lparr>x0 = 50, y0 = 100, x1 = 550, y1 = 700\<rparr> sp
     [[Some (Cell (50, 100, 550, 700) (2, 2, 2, 2) [inner_table sp_inner])]]"

definition nested_page :: layout where
  "nested_page =
     \<lparr> width = 600, height = 800, blocks = [outer_table 0 0],
       p_margin = Some (50, 48, 60, 20), rects = [] \<rparr>"

text \<open>
  A page whose rectangle collection holds one rectangle that carries the tag 0, and a
  grouping that puts it in one group.
\<close>

definition tagged_rects :: "rect list" where
  "tagged_rects = [\<lparr>rect_bbox = \<lparr>x0 = 10, y0 = 10, x1 = 200, y1 = 60\<rparr>, rect_type = 0\<rparr>]"

definition tagged_page :: layout where
  "tagged_page =
     \<lparr> width = 600, height = 800, blocks = [], p_margin = None, rects = tagged_rects \<rparr>"

definition one_group :: "rect list \<Rightarrow> nat list list" where
  "one_group s = [[0..<length s]]"

text \<open>
  Modelled from the spec: \<^verbatim>\<open>_set_table_borders\<close> and
  \<^verbatim>\<open>_parse_table_structure_from_rects\<close> are not part of \<^verbatim>\<open>Layout.py\<close>. For a group
  without border rectangles the specification has the classification reject the group and
  revert the tag of every rectangle of it to unclassified; \<open>release_group\<close> is that case.
  \<open>no_structure\<close> is a structure parser that rejects the group.
\<close>

definition release_group :: set_borders where
  "release_group s g = (False, reset_types g s)"

definition no_structure :: parse_structure where
  "no_structure s g = (None, s)"

section \<open>Properties\<close>

subsection \<open>Iterated minimum and maximum\<close>

lemma min_iter_Min: "min_iter cur vs = Min (set (cur # vs))"
proof (induction vs arbitrary: cur)
  case Nil
  show ?case by simp
next
  case (Cons v vs)
  have "min_iter cur (v # vs) = Min (insert (min cur v) (set vs))"
    using Cons.IH [of "if v < cur then v else cur"] by (simp add: min_def)
  also have "\<dots> = Min (set (cur # v # vs))"
    by (cases "vs = []") (simp_all add: min.assoc)
  finally show ?case .
qed

lemma max_iter_Max: "max_iter cur vs = Max (set (cur # vs))"
proof (induction vs arbitrary: cur)
  case Nil
  show ?case by simp
next
  case (Cons v vs)
  have "max_iter cur (v # vs) = Max (insert (max cur v) (set vs))"
    using Cons.IH [of "if v > cur then v else cur"] by (simp add: max_def)
  also have "\<dots> = Max (set (cur # v # vs))"
    by (cases "vs = []") (simp_all add: max.assoc)
  finally show ?case .
qed

lemma py_min_Min: "vs \<noteq> [] \<Longrightarrow> py_min vs = Inr (Min (set vs))"
  by (cases vs) (simp_all add: py_min_def min_iter_Min del: min_iter.simps)

lemma py_max_Max: "vs \<noteq> [] \<Longrightarrow> py_max vs = Inr (Max (set vs))"
  by (cases vs) (simp_all add: py_max_def max_iter_Max del: max_iter.simps)

lemma min2_min: "min2 a b = min a b"
  by (simp add: min2_def min_def)

lemma max2_max: "max2 a b = max a b"
  by (simp add: max2_def max_def)

subsection \<open>The margin in closed form\<close>

lemma page_margin_blocks:
  assumes "blocks self \<noteq> []"
  shows "page_margin u self =
         Inr (self\<lparr>p_margin := Some (reference_margin (ITP u) (DM u) (width self) (height self)
                                      (map block_bbox (blocks self)))\<rparr>)"
  unfolding page_margin_def reference_margin_def Let_def
  using assms
  by (simp add: py_min_Min py_max_Max bind_err_def min2_min max2_max max.commute)

lemma page_margin_empty:
  assumes "blocks self = []"
  shows "page_margin u self = Inr (self\<lparr>p_margin := Some (ITP u, ITP u, ITP u, ITP u)\<rparr>)"
  using assms by (simp add: page_margin_def)

lemma page_margin_returns:
  "\<exists>m. page_margin u self = Inr (self\<lparr>p_margin := Some m\<rparr>)"
proof (cases "blocks self = []")
  case True
  then show ?thesis using page_margin_empty by blast
next
  case False
  then show ?thesis using page_margin_blocks by blast
qed

lemma reference_margin_range:
  assumes "boxes \<noteq> []" and "0 \<le> normal"
    and "\<forall>b \<in> set boxes. 0 \<le> x0 b \<and> 0 \<le> y0 b"
  shows "margin_in_range \<lparr>ITP = normal, DM = tol\<rparr> (reference_margin normal tol w h boxes)"
proof -
  have l: "0 \<le> Min (set (map x0 boxes))"
    using assms(1,3) by (simp add: Min_ge_iff)
  have t: "0 \<le> Min (set (map y0 boxes))"
    using assms(1,3) by (simp add: Min_ge_iff)
  show ?thesis
    using l t assms(2)
    by (simp add: margin_in_range_def reference_margin_def Let_def min_def max_def)
qed

subsection \<open>Resetting the tags of a group\<close>

lemma length_reset_types: "length (reset_types g s) = length s"
  by (induction g arbitrary: s) simp_all

lemma reset_types_keeps:
  "i < length s \<Longrightarrow> rect_type (s ! i) = -1 \<Longrightarrow> rect_type (reset_types g s ! i) = -1"
proof (induction g arbitrary: s)
  case Nil
  then show ?case by simp
next
  case (Cons a g)
  have "rect_type (s[a := (s ! a)\<lparr>rect_type := -1\<rparr>] ! i) = -1"
    using Cons.prems by (cases "a = i") simp_all
  then show ?case
    using Cons.IH [of "s[a := (s ! a)\<lparr>rect_type := -1\<rparr>]"] Cons.prems(1) by simp
qed

lemma reset_types_resets:
  "i \<in> set g \<Longrightarrow> i < length s \<Longrightarrow> rect_type (reset_types g s ! i) = -1"
proof (induction g arbitrary: s)
  case Nil
  then show ?case by simp
next
  case (Cons a g)
  show ?case
  proof (cases "a = i")
    case True
    have "rect_type (s[a := (s ! a)\<lparr>rect_type := -1\<rparr>] ! i) = -1"
      using True Cons.prems(2) by simp
    then show ?thesis
      using reset_types_keeps [of i "s[a := (s ! a)\<lparr>rect_type := -1\<rparr>]" g] Cons.prems(2)
      by simp
  next
    case False
    then have "i \<in> set g" using Cons.prems(1) by simp
    then show ?thesis
      using Cons.IH [of "s[a := (s ! a)\<lparr>rect_type := -1\<rparr>]"] Cons.prems(2) by simp
  qed
qed

text \<open>
  The method as a whole never returns \<^verbatim>\<open>True\<close> and never adds a table to the page:
  the loop raises at the first group, and line 180, which would add the tables, evaluates
  the name \<^verbatim>\<open>layout\<close>. Without groups the method returns \<^verbatim>\<open>False\<close>. The block
  collection is as before in every case.
\<close>

lemma table_structure_outcome:
  "fst (parse_table_structure_from_rects rects_group stb pts setb self) \<noteq> Inr True \<and>
   blocks (snd (parse_table_structure_from_rects rects_group stb pts setb self)) = blocks self"
  by (simp add: parse_table_structure_from_rects_def Let_def load_name_def module_globals_def
      table_locals_def split: prod.splits option.splits)

subsection \<open>Cells under the spacing pass\<close>

lemma nested_nth_map:
  "j < length cs \<Longrightarrow> k < length (cs ! j) \<Longrightarrow>
   map (map (map_option f)) cs ! j ! k = map_option f (cs ! j ! k)"
  by simp

section \<open>The claims\<close>

subsection \<open>Margins\<close>

text \<open>
  C1, as amended. For a page with at least one block, a non-negative normal margin and
  no block that starts left of or above the page origin (\<open>x0\<close> and \<open>y0\<close> of every block
  non-negative), the margin computation returns, and each of the four sides of the margin
  lies between zero and the normal margin \<open>ITP\<close>, the right side being at most the left
  one.
\<close>

theorem margin_range:
  assumes "blocks self \<noteq> []" and "0 \<le> ITP u"
    and "\<forall>b \<in> set (blocks self). 0 \<le> x0 (block_bbox b) \<and> 0 \<le> y0 (block_bbox b)"
  shows "\<exists>m. page_margin u self = Inr (self\<lparr>p_margin := Some m\<rparr>) \<and> margin_in_range u m"
proof -
  let ?m = "reference_margin (ITP u) (DM u) (width self) (height self) (map block_bbox (blocks self))"
  have "margin_in_range \<lparr>ITP = ITP u, DM = DM u\<rparr> ?m"
    using assms by (intro reference_margin_range) simp_all
  then have "margin_in_range u ?m"
    by (simp add: margin_in_range_def)
  then show ?thesis
    using page_margin_blocks [OF assms(1), of u] by blast
qed

text \<open>The amended C1 on the scenario page.\<close>

theorem margin_range_witness:
  "blocks scenario_page \<noteq> [] \<and> 0 \<le> ITP std_utils \<and>
   list_all (\<lambda>b. 0 \<le> x0 (block_bbox b) \<and> 0 \<le> y0 (block_bbox b)) (blocks scenario_page) \<and>
   (\<exists>m. page_margin std_utils scenario_page = Inr (scenario_page\<lparr>p_margin := Some m\<rparr>) \<and>
        margin_in_range std_utils m)"
  using margin_range [of scenario_page std_utils]
  by (simp add: scenario_page_def std_utils_def)

text \<open>
  C1 as it is written fails: the block of \<open>neg_page\<close> starts at \<open>x0 = -10\<close>; the left
  margin is the least \<open>x0\<close>, with a cap but no floor, so it is \<open>-10\<close>, while the right
  margin is floored at zero and exceeds it.
\<close>

theorem margin_range_counterexample:
  "blocks neg_page \<noteq> [] \<and>
   page_margin std_utils neg_page = Inr (neg_page\<lparr>p_margin := Some (-10, 0, 60, 72)\<rparr>) \<and>
   \<not> margin_in_range std_utils (-10, 0, 60, 72)"
  by (simp add: neg_page_def std_utils_def page_margin_def py_min_def py_max_def bind_err_def
      min2_def max2_def margin_in_range_def)

text \<open>
  C2. For a page with at least one block, the margin computation returns the page with the
  margin of the reference algorithm: left the least \<open>x0\<close>, right
  \<open>max(0, min(width - max x1 - 2 * DM, left))\<close>, top the least \<open>y0\<close>, bottom
  \<open>0.5 * max(0, height - max y1)\<close>, each capped at \<open>ITP\<close>.
\<close>

theorem page_margin_reference:
  assumes "blocks self \<noteq> []"
  shows "page_margin u self =
         Inr (self\<lparr>p_margin := Some (reference_margin (ITP u) (DM u) (width self) (height self)
                                      (map block_bbox (blocks self)))\<rparr>)"
  using assms by (rule page_margin_blocks)

text \<open>C2 on the scenario page: the margin is \<open>(50, 48, 60, 20)\<close>.\<close>

theorem page_margin_reference_witness:
  "blocks scenario_page \<noteq> [] \<and>
   page_margin std_utils scenario_page = Inr (scenario_page\<lparr>p_margin := Some (50, 48, 60, 20)\<rparr>)"
  using page_margin_reference [of scenario_page std_utils]
  by (simp add: scenario_page_def std_utils_def reference_margin_def)

text \<open>
  C3. For a page without blocks, the margin computation sets the margin to the normal
  margin \<open>ITP\<close> on all four sides.
\<close>

theorem page_margin_no_blocks:
  assumes "blocks self = []"
  shows "page_margin u self = Inr (self\<lparr>p_margin := Some (ITP u, ITP u, ITP u, ITP u)\<rparr>) \<and>
         margin (self\<lparr>p_margin := Some (ITP u, ITP u, ITP u, ITP u)\<rparr>) =
           Some (ITP u, ITP u, ITP u, ITP u)"
  using assms by (simp add: page_margin_def margin_def)

text \<open>C3 on the page constructed from a raw dict without blocks.\<close>

theorem page_margin_no_blocks_witness:
  "blocks (Layout_init empty_raw) = [] \<and>
   page_margin std_utils (Layout_init empty_raw) =
     Inr (Layout_init empty_raw\<lparr>p_margin := Some (72, 72, 72, 72)\<rparr>)"
  using page_margin_no_blocks [of "Layout_init empty_raw" std_utils]
  by (simp add: Layout_init_def empty_raw_def std_utils_def dict_get_def)

text \<open>
  C8. The margin computation always returns, and running it again on the page it returned
  returns that same page: the second run leaves the margin of the first.
\<close>

theorem page_margin_twice:
  "\<exists>self'. page_margin u self = Inr self' \<and> page_margin u self' = Inr self' \<and>
           margin self' \<noteq> None"
proof (cases "blocks self = []")
  case True
  then show ?thesis by (simp add: page_margin_def margin_def)
next
  case False
  let ?m = "reference_margin (ITP u) (DM u) (width self) (height self) (map block_bbox (blocks self))"
  let ?s = "self\<lparr>p_margin := Some ?m\<rparr>"
  have 1: "page_margin u self = Inr ?s"
    using False by (rule page_margin_blocks)
  have "blocks ?s \<noteq> []" using False by simp
  from page_margin_blocks [OF this, of u]
  have 2: "page_margin u ?s = Inr ?s" by simp
  show ?thesis
    by (rule exI [of _ ?s]) (simp add: 1 2 margin_def)
qed

subsection \<open>Construction\<close>

text \<open>
  C9. On a page as the constructor leaves it, the margin property is \<open>None\<close>, which is
  not the normal margin, and the vertical spacing pass raises \<^verbatim>\<open>TypeError\<close> at the
  subscript of the margin, whatever the spacing routine of the block collection is.
\<close>

theorem fresh_layout_margin:
  "margin (Layout_init raw) = None \<and>
   margin (Layout_init raw) \<noteq> Some (ITP u, ITP u, ITP u, ITP u) \<and>
   parse_vertical_spacing pvs (Layout_init raw) = Inl TypeError"
  by (simp add: margin_def Layout_init_def parse_vertical_spacing_def)

text \<open>
  C10. The constructor leaves the rectangle collection empty and builds the same page
  whatever the raw dict holds under \<^verbatim>\<open>rects\<close>; without the key \<^verbatim>\<open>width\<close> the width is
  \<open>0.0\<close>, without the key \<^verbatim>\<open>height\<close> the height is \<open>0.0\<close>.
\<close>

theorem init_ignores_rects:
  "rects (Layout_init raw) = [] \<and>
   Layout_init (raw\<lparr>raw_rects := r\<rparr>) = Layout_init raw \<and>
   width (Layout_init (raw\<lparr>raw_width := None\<rparr>)) = 0.0 \<and>
   height (Layout_init (raw\<lparr>raw_height := None\<rparr>)) = 0.0"
  by (simp add: Layout_init_def dict_get_def)

subsection \<open>The pipeline\<close>

text \<open>
  C4 does not hold of \<^verbatim>\<open>Layout.parse\<close>. After the preprocessing and the margin
  computation, line 143 evaluates the name \<^verbatim>\<open>layout\<close>, which is neither a local of the
  method nor bound at module level: the call raises \<^verbatim>\<open>NameError\<close> for every page and
  every choice of the collaborators, and the method never runs to completion. (The model
  grants the four functions of lines 143-152 as collaborators; \<^verbatim>\<open>Layout.py\<close> imports
  none of them, so that Python reports the name of the function first.)
\<close>

theorem parse_raises:
  "parse u pre explicit implicit text_format spacing_fn self = Inl (NameError ''layout'')"
proof -
  obtain m where "page_margin u (self\<lparr>blocks := pre (blocks self)\<rparr>) =
      Inr (self\<lparr>blocks := pre (blocks self), p_margin := Some m\<rparr>)"
    using page_margin_returns [of u "self\<lparr>blocks := pre (blocks self)\<rparr>"] by auto
  then show ?thesis
    by (simp add: parse_def Let_def bind_err_def load_name_def module_globals_def)
qed

subsection \<open>Tables from rectangles\<close>

text \<open>
  C5 does not hold of \<^verbatim>\<open>Layout.parse_table_structure_from_rects\<close>. Whenever the
  grouping yields a group, the loop evaluates the name \<^verbatim>\<open>_set_table_borders\<close> at line 165
  for the first group; the name is neither a local of the method nor bound at module
  level, so the method raises \<^verbatim>\<open>NameError\<close> there and leaves the page, with every tag
  of every rectangle, as it was: no group is classified and the reset of lines 174-176 is
  never reached.
\<close>

theorem table_structure_raises:
  assumes "rects_group (rects self) \<noteq> []"
  shows "parse_table_structure_from_rects rects_group stb pts setb self =
         (Inl (NameError ''_set_table_borders''), self)"
proof -
  obtain grp groups where g: "rects_group (rects self) = grp # groups"
    using assms by (cases "rects_group (rects self)") simp_all
  have "check_group stb pts setb grp ([], rects self) =
        (Some (NameError ''_set_table_borders''), [], rects self)"
    by (simp add: check_group_def load_name_def table_locals_def module_globals_def)
  then have "check_groups stb pts setb (grp # groups) ([], rects self) =
        (Some (NameError ''_set_table_borders''), [], rects self)"
    by simp
  then show ?thesis
    by (simp add: parse_table_structure_from_rects_def g)
qed

text \<open>
  C5 on \<open>tagged_page\<close>, with helpers that follow the specification: the group of its
  rectangle is never released, the method raises, and the rectangle keeps the tag 0.
\<close>

theorem table_structure_raises_witness:
  "one_group (rects tagged_page) \<noteq> [] \<and>
   parse_table_structure_from_rects one_group release_group no_structure id tagged_page =
     (Inl (NameError ''_set_table_borders''), tagged_page) \<and>
   rect_type (rects tagged_page ! 0) = 0 \<and>
   rect_type (snd (release_group (rects tagged_page) [0]) ! 0) = -1"
  using table_structure_raises [of one_group tagged_page release_group no_structure id]
  by (simp add: one_group_def tagged_page_def tagged_rects_def release_group_def)

subsection \<open>Vertical spacing\<close>

text \<open>
  C6. On a page whose margin is set, for every table block of the page (after the
  page-level pass) and every non-empty cell of it, the vertical spacing pass replaces the
  block collection of the cell by the result of the spacing routine with the scope top
  \<open>y0 + w_top / 2\<close> and the scope bottom \<open>y1 - w_bottom / 2\<close> of the cell itself; the
  margin of the page does not enter these bounds.
\<close>

theorem cell_scope:
  assumes "margin self = Some (m_left, m_right, m_top, m_bottom)"
    and "i < length (pvs m_top (height self - m_bottom) (blocks self))"
    and "pvs m_top (height self - m_bottom) (blocks self) ! i = TableBlock bb sp cs"
    and "j < length cs" and "k < length (cs ! j)" and "cs ! j ! k = Some c"
    and "bbox_raw c = (cx0, cy0, cx1, cy1)"
    and "border_width c = (w_top, w_right, w_bottom, w_left)"
  shows "\<exists>self' cs'. parse_vertical_spacing pvs self = Inr self' \<and>
           blocks self' ! i = TableBlock bb sp cs' \<and>
           cs' ! j ! k = Some (Cell (bbox_raw c) (border_width c)
                                (pvs (cy0 + w_top / 2) (cy1 - w_bottom / 2) (cell_blocks c)))"
proof -
  let ?bs = "pvs m_top (height self - m_bottom) (blocks self)"
  let ?f = "\<lambda>b. if is_table_block b then table_spacing pvs b else b"
  let ?cs' = "map (map (map_option (cell_spacing pvs))) cs"
  have r: "parse_vertical_spacing pvs self = Inr (self\<lparr>blocks := map ?f ?bs\<rparr>)"
    using assms(1) by (simp add: parse_vertical_spacing_def)
  have b: "map ?f ?bs ! i = TableBlock bb sp ?cs'"
    using assms(2,3) by simp
  have "?cs' ! j ! k = map_option (cell_spacing pvs) (cs ! j ! k)"
    using assms(4,5) by (rule nested_nth_map)
  also have "\<dots> = Some (Cell (bbox_raw c) (border_width c)
                      (pvs (cy0 + w_top / 2) (cy1 - w_bottom / 2) (cell_blocks c)))"
    using assms(6,7,8) by (simp add: cell_spacing_def)
  finally show ?thesis using r b by simp
qed

text \<open>C6 on \<open>table_page\<close>: the cell with borders 2 (top) and 4 (bottom) is spaced from
  121, which puts 9 before its block that starts at 130.\<close>

theorem cell_scope_witness:
  "margin table_page = Some (50, 48, 60, 20) \<and>
   gap_spacing 60 (height table_page - 20) (blocks table_page) ! 1 =
     TableBlock \<lparr>x0 = 50, y0 = 120, x1 = 550, y1 = 760\<rparr> 20
       [[Some (Cell (50, 120, 300, 760) (2, 2, 4, 2)
           [TextBlock \<lparr>x0 = 60, y0 = 130, x1 = 290, y1 = 150\<rparr> 0]), None]] \<and>
   (\<exists>self' cs'. parse_vertical_spacing gap_spacing table_page = Inr self' \<and>
      blocks self' ! 1 = TableBlock \<lparr>x0 = 50, y0 = 120, x1 = 550, y1 = 760\<rparr> 20 cs' \<and>
      cs' ! 0 ! 0 = Some (Cell (50, 120, 300, 760) (2, 2, 4, 2)
                            [TextBlock \<lparr>x0 = 60, y0 = 130, x1 = 290, y1 = 150\<rparr> 9]))"
  using cell_scope [of table_page 50 48 60 20 1 gap_spacing
      "\<lparr>x0 = 50, y0 = 120, x1 = 550, y1 = 760\<rparr>" 20
      "[[Some (Cell (50, 120, 300, 760) (2, 2, 4, 2)
           [TextBlock \<lparr>x0 = 60, y0 = 130, x1 = 290, y1 = 150\<rparr> 0]), None]]"
      0 0 "Cell (50, 120, 300, 760) (2, 2, 4, 2)
           [TextBlock \<lparr>x0 = 60, y0 = 130, x1 = 290, y1 = 150\<rparr> 0]"
      50 120 300 760 2 2 4 2]
  by (simp add: table_page_def margin_def gap_spacing_def)

text \<open>
  C7, as amended. On a page whose margin is set the vertical spacing pass returns (the
  spacing routine of the block collection being a function that returns), and its result
  is exactly this: the page-level collection as the routine returns it for the scope from
  the top margin to the height less the bottom margin; in it, every block that is no table
  as the routine left it, and every table block with the same rows and cells, an empty
  cell staying empty and a non-empty cell getting, as its block collection, what the
  routine returns for its former collection and the scope \<open>y0 + w_top / 2\<close>,
  \<open>y1 - w_bottom / 2\<close> of the cell; the rest of the page is as before. The pass applies
  nothing else: whatever lies inside
  a cell, a nested table and its cells included, is as that one call of the routine left
  it, so that a deeper cell is reached only by a routine that descends by itself.
\<close>

theorem spacing_depth:
  assumes "margin self = Some (m_left, m_right, m_top, m_bottom)"
  shows "\<exists>self'. parse_vertical_spacing pvs self = Inr self' \<and>
           self'\<lparr>blocks := blocks self\<rparr> = self \<and>
           length (blocks self') = length (pvs m_top (height self - m_bottom) (blocks self)) \<and>
           (\<forall>i < length (blocks self').
              (case pvs m_top (height self - m_bottom) (blocks self) ! i of
                 TextBlock bb sp \<Rightarrow> blocks self' ! i = TextBlock bb sp
               | TableBlock bb sp cs \<Rightarrow>
                   (\<exists>cs'. blocks self' ! i = TableBlock bb sp cs' \<and> length cs' = length cs \<and>
                      (\<forall>j < length cs. length (cs' ! j) = length (cs ! j) \<and>
                         (\<forall>k < length (cs ! j).
                            (case cs ! j ! k of
                               None \<Rightarrow> cs' ! j ! k = None
                             | Some c \<Rightarrow>
                                 (case bbox_raw c of (cx0, cy0, cx1, cy1) \<Rightarrow>
                                    (case border_width c of (w_top, w_right, w_bottom, w_left) \<Rightarrow>
                                       cs' ! j ! k =
                                         Some (Cell (cx0, cy0, cx1, cy1)
                                                 (w_top, w_right, w_bottom, w_left)
                                                 (pvs (cy0 + w_top / 2) (cy1 - w_bottom / 2)
                                                    (cell_blocks c)))))))))))"
proof -
  let ?bs = "pvs m_top (height self - m_bottom) (blocks self)"
  let ?f = "\<lambda>b. if is_table_block b then table_spacing pvs b else b"
  let ?self' = "self\<lparr>blocks := map ?f ?bs\<rparr>"
  let ?C = "\<lambda>co co'.
     (case co of
        None \<Rightarrow> co' = None
      | Some c \<Rightarrow>
          (case bbox_raw c of (cx0, cy0, cx1, cy1) \<Rightarrow>
             (case border_width c of (w_top, w_right, w_bottom, w_left) \<Rightarrow>
                co' =
                  Some (Cell (cx0, cy0, cx1, cy1)
                          (w_top, w_right, w_bottom, w_left)
                          (pvs (cy0 + w_top / 2) (cy1 - w_bottom / 2)
                             (cell_blocks c))))))"
  let ?B = "\<lambda>b b'.
     (case b of
        TextBlock bb sp \<Rightarrow> b' = TextBlock bb sp
      | TableBlock bb sp cs \<Rightarrow>
          (\<exists>cs'. b' = TableBlock bb sp cs' \<and> length cs' = length cs \<and>
             (\<forall>j < length cs. length (cs' ! j) = length (cs ! j) \<and>
                (\<forall>k < length (cs ! j). ?C (cs ! j ! k) (cs' ! j ! k)))))"
  have r: "parse_vertical_spacing pvs self = Inr ?self'"
    using assms by (simp add: parse_vertical_spacing_def)
  have cell: "?C co (map_option (cell_spacing pvs) co)" for co
    by (simp add: cell_spacing_def split: option.splits prod.splits)
  have block: "?B b (?f b)" for b
  proof (cases b)
    case (TextBlock bb sp)
    then show ?thesis by simp
  next
    case (TableBlock bb sp cs)
    let ?cs' = "map (map (map_option (cell_spacing pvs))) cs"
    have eq: "?cs' ! j ! k = map_option (cell_spacing pvs) (cs ! j ! k)"
      if "j < length cs" "k < length (cs ! j)" for j k
      using that by (rule nested_nth_map)
    have cellk: "?C (cs ! j ! k) (?cs' ! j ! k)"
      if "j < length cs" "k < length (cs ! j)" for j k
      unfolding eq [OF that] by (rule cell)
    have rows: "\<forall>j < length cs. length (?cs' ! j) = length (cs ! j) \<and>
        (\<forall>k < length (cs ! j). ?C (cs ! j ! k) (?cs' ! j ! k))"
    proof (intro allI impI conjI)
      fix j
      assume "j < length cs"
      then show "length (?cs' ! j) = length (cs ! j)" by simp
    next
      fix j k
      assume "j < length cs" "k < length (cs ! j)"
      then show "?C (cs ! j ! k) (?cs' ! j ! k)" by (rule cellk)
    qed
    have fb: "?f b = TableBlock bb sp ?cs'"
      using TableBlock by simp
    have len: "length ?cs' = length cs"
      by simp
    have "\<exists>cs'. ?f b = TableBlock bb sp cs' \<and> length cs' = length cs \<and>
             (\<forall>j < length cs. length (cs' ! j) = length (cs ! j) \<and>
                (\<forall>k < length (cs ! j). ?C (cs ! j ! k) (cs' ! j ! k)))"
      using fb len rows by (intro exI [of _ ?cs'] conjI)
    then show ?thesis
      unfolding TableBlock block.case .
  qed
  have nth: "?B (?bs ! i) (blocks ?self' ! i)" if "i < length (blocks ?self')" for i
  proof -
    have "blocks ?self' ! i = ?f (?bs ! i)"
      using that by simp
    then show ?thesis
      using block [of "?bs ! i"] by (simp only:)
  qed
  have "?self'\<lparr>blocks := blocks self\<rparr> = self"
    by simp
  moreover have "length (blocks ?self') = length ?bs"
    by simp
  moreover have "\<forall>i < length (blocks ?self'). ?B (?bs ! i) (blocks ?self' ! i)"
    using nth by blast
  ultimately show ?thesis
    using r by (intro exI [of _ ?self'] conjI)
qed

text \<open>The amended C7 on \<open>nested_page\<close>, with the spacing routine of the specification:
  the cell of the outer table holds the inner table with the space 9 before it.\<close>

theorem spacing_depth_witness:
  "margin nested_page = Some (50, 48, 60, 20) \<and>
   (\<exists>self' cs'. parse_vertical_spacing gap_spacing nested_page = Inr self' \<and>
      length (blocks self') = 1 \<and>
      blocks self' ! 0 = TableBlock \<lparr>x0 = 50, y0 = 100, x1 = 550, y1 = 700\<rparr> 40 cs' \<and>
      cs' ! 0 ! 0 = Some (Cell (50, 100, 550, 700) (2, 2, 2, 2) [inner_table 9]))"
proof -
  have m: "margin nested_page = Some (50, 48, 60, 20)"
    by (simp add: nested_page_def margin_def)
  have bs: "gap_spacing 60 (height nested_page - 20) (blocks nested_page) = [outer_table 40 0]"
    by (simp add: nested_page_def gap_spacing_def outer_table_def)
  have inner: "gap_spacing (100 + 2 / 2) (700 - 2 / 2) [inner_table 0] = [inner_table 9]"
    by (simp add: gap_spacing_def inner_table_def)
  from spacing_depth [OF m, of gap_spacing] obtain self' where
    r: "parse_vertical_spacing gap_spacing nested_page = Inr self'" and
    len: "length (blocks self') = 1" and
    all: "\<forall>i < length (blocks self').
            (case [outer_table 40 0] ! i of
               TextBlock bb sp \<Rightarrow> blocks self' ! i = TextBlock bb sp
             | TableBlock bb sp cs \<Rightarrow>
                 (\<exists>cs'. blocks self' ! i = TableBlock bb sp cs' \<and> length cs' = length cs \<and>
                    (\<forall>j < length cs. length (cs' ! j) = length (cs ! j) \<and>
                       (\<forall>k < length (cs ! j).
                          (case cs ! j ! k of
                             None \<Rightarrow> cs' ! j ! k = None
                           | Some c \<Rightarrow>
                               (case bbox_raw c of (cx0, cy0, cx1, cy1) \<Rightarrow>
                                  (case border_width c of (w_top, w_right, w_bottom, w_left) \<Rightarrow>
                                     cs' ! j ! k =
                                       Some (Cell (cx0, cy0, cx1, cy1)
                                               (w_top, w_right, w_bottom, w_left)
                                               (gap_spacing (cy0 + w_top / 2) (cy1 - w_bottom / 2)
                                                  (cell_blocks c))))))))))"
    unfolding bs by auto
  from all [rule_format, of 0] len obtain cs' where
    t: "blocks self' ! 0 = TableBlock \<lparr>x0 = 50, y0 = 100, x1 = 550, y1 = 700\<rparr> 40 cs'" and
    cells: "\<forall>j < 1. \<forall>k < 1.
              cs' ! j ! k = Some (Cell (50, 100, 550, 700) (2, 2, 2, 2)
                (gap_spacing (100 + 2 / 2) (700 - 2 / 2) [inner_table 0]))"
    by (auto simp: outer_table_def)
  have "cs' ! 0 ! 0 = Some (Cell (50, 100, 550, 700) (2, 2, 2, 2) [inner_table 9])"
    using cells inner by simp
  then show ?thesis
    using m r len t by blast
qed

text \<open>
  C7 as it is written fails: on \<open>nested_page\<close> the pass sets the spacing of the outer
  table (40) and of the inner table (9), and leaves the block collection of the inner
  table's cell as it was, although the spacing routine changes that collection when it is
  given the scope of that cell.
\<close>

theorem spacing_depth_counterexample:
  "parse_vertical_spacing gap_spacing nested_page =
     Inr (nested_page\<lparr>blocks := [outer_table 40 9]\<rparr>) \<and>
   gap_spacing (110 + 2 / 2) (690 - 2 / 2) [inner_text] \<noteq> [inner_text]"
  by (simp add: parse_vertical_spacing_def nested_page_def margin_def gap_spacing_def
      outer_table_def inner_table_def inner_text_def cell_spacing_def)

end
